theory Spec2Isabelle
  imports Main
begin

section \<open>The world fetch_data runs in\<close>

text \<open>
  \<^verbatim>\<open>async_request.py\<close> holds one coroutine, \<^verbatim>\<open>fetch_data\<close>, and a main block.
  Everything the coroutine does is an effect on the outside world: it opens a client
  session, issues a GET, looks at the status, reads the body and leaves its two
  \<^verbatim>\<open>async with\<close> blocks. The world is therefore explicit state: what the remote
  side answers to a GET of each URL, a counter that names the sessions created so far,
  and the trace of effects in the order they happened.
\<close>

text \<open>Why a GET can fail before any status line arrives.\<close>

datatype transport_failure = DNSFailure | ConnectionRefused | TransportTimeout | HostUnreachable

text \<open>Why \<^verbatim>\<open>response.text()\<close> can fail after the status line arrived.\<close>

datatype payload_failure = PayloadIncomplete | DecodeFailure

text \<open>
  The exceptions that can leave \<^verbatim>\<open>fetch_data\<close>. \<open>ClientResponseError\<close> is the class
  the unit test expects (\<^verbatim>\<open>aiohttp.ClientResponseError\<close>, the specification's
  HTTPStatusError); it carries the status code and the URL of the request.
  \<open>TransportError\<close> stands for whatever \<^verbatim>\<open>session.get\<close> raises when no status
  was obtained, \<open>PayloadError\<close> for whatever \<^verbatim>\<open>response.text()\<close> raises.
\<close>

datatype exn =
    ClientResponseError int string
  | TransportError transport_failure
  | PayloadError payload_failure

datatype event =
    SessionOpen nat
  | Get nat string
  | StatusChecked int
  | BodyRead
  | ResponseRelease
  | SessionClose nat
  | Print string
  | Traceback exn

text \<open>
  What the remote side answers to a GET: a transport failure, or a status code together
  with what reading the body as text will yield.
\<close>

type_synonym remote = "string \<Rightarrow> transport_failure + int \<times> (payload_failure + string)"

record world =
  routes :: remote
  next_session :: nat
  trace :: "event list"

record response =
  status :: int
  request_url :: string
  text_result :: "payload_failure + string"

definition log_event :: "event \<Rightarrow> world \<Rightarrow> world" where
  "log_event e w = w\<lparr>trace := trace w @ [e]\<rparr>"

section \<open>The client library calls used by fetch_data\<close>

text \<open>
  \<^verbatim>\<open>async with aiohttp.ClientSession() as session: body\<close>: a new session is created,
  the body runs with it, and the session is closed when the block is left, whether the
  body returned or raised.
\<close>

definition with_ClientSession ::
  "(nat \<Rightarrow> world \<Rightarrow> (exn + 'a) \<times> world) \<Rightarrow> world \<Rightarrow> (exn + 'a) \<times> world" where
  "with_ClientSession body w =
     (let session = next_session w;
          w1 = log_event (SessionOpen session) (w\<lparr>next_session := Suc session\<rparr>);
          (r, w2) = body session w1
      in (r, log_event (SessionClose session) w2))"

text \<open>
  \<^verbatim>\<open>session.get(url)\<close>, awaited: one GET is issued; the remote side's answer decides
  between an exception and a response object that remembers the URL it was requested with.
\<close>

definition session_get :: "nat \<Rightarrow> string \<Rightarrow> world \<Rightarrow> (exn + response) \<times> world" where
  "session_get session url w =
     (let w1 = log_event (Get session url) w
      in case routes w url of
           Inl t \<Rightarrow> (Inl (TransportError t), w1)
         | Inr (st, tx) \<Rightarrow>
             (Inr \<lparr>status = st, request_url = url, text_result = tx\<rparr>, w1))"

text \<open>
  \<^verbatim>\<open>async with session.get(url) as response: body\<close>: when the GET raises, the body
  never runs and there is no response to release; otherwise the response is released
  when the block is left, whether the body returned or raised.
\<close>

definition with_get ::
  "nat \<Rightarrow> string \<Rightarrow> (response \<Rightarrow> world \<Rightarrow> (exn + 'a) \<times> world) \<Rightarrow> world \<Rightarrow> (exn + 'a) \<times> world" where
  "with_get session url body w =
     (case session_get session url w of
        (Inl e, w1) \<Rightarrow> (Inl e, w1)
      | (Inr resp, w1) \<Rightarrow>
          (let (r, w2) = body resp w1 in (r, log_event ResponseRelease w2)))"

text \<open>
  Modelled from the spec: \<^verbatim>\<open>ClientResponse.raise_for_status\<close> belongs to the aiohttp
  library, which is not among the repository's sources. The specification says the call
  fails when the status code is at least 400, with an error carrying the status code and
  the URL, and passes otherwise.
\<close>

definition raise_for_status :: "response \<Rightarrow> world \<Rightarrow> (exn + unit) \<times> world" where
  "raise_for_status resp w =
     (if 400 \<le> status resp
      then Inl (ClientResponseError (status resp) (request_url resp))
      else Inr (),
      log_event (StatusChecked (status resp)) w)"

text \<open>\<^verbatim>\<open>response.text()\<close>, awaited: the body is read and decoded.\<close>

definition text_of :: "response \<Rightarrow> world \<Rightarrow> (exn + string) \<times> world" where
  "text_of resp w =
     (case text_result resp of
        Inl p \<Rightarrow> Inl (PayloadError p)
      | Inr s \<Rightarrow> Inr s,
      log_event BodyRead w)"

section \<open>fetch_data\<close>

text \<open>
  \<^verbatim>\<open>
  async def fetch_data(url: str) -> str:
      async with aiohttp.ClientSession() as session:
          async with session.get(url) as response:
              response.raise_for_status()
              return await response.text()
  \<close>
\<close>

definition fetch_data :: "string \<Rightarrow> world \<Rightarrow> (exn + string) \<times> world" where
  "fetch_data url w =
     with_ClientSession (\<lambda>session.
       with_get session url (\<lambda>response w1.
         case raise_for_status response w1 of
           (Inl e, w2) \<Rightarrow> (Inl e, w2)
         | (Inr _, w2) \<Rightarrow> text_of response w2)) w"

section \<open>The main block\<close>

text \<open>\<^verbatim>\<open>asyncio.run(coro)\<close> runs the coroutine to completion.\<close>

definition asyncio_run :: "(world \<Rightarrow> (exn + 'a) \<times> world) \<Rightarrow> world \<Rightarrow> (exn + 'a) \<times> world" where
  "asyncio_run coro w = coro w"

definition print :: "string \<Rightarrow> world \<Rightarrow> world" where
  "print s w = log_event (Print s) w"

text \<open>
  Executing the module's top level under the name the interpreter gives it. The imports
  and the \<^verbatim>\<open>def\<close> bind names only; the rest is
  \<^verbatim>\<open>
  if __name__ == "__main__":
      url = "https://example.com"
      response_text = asyncio.run(fetch_data(url))
      print(response_text)
  \<close>
\<close>

definition module_exec :: "string \<Rightarrow> world \<Rightarrow> (exn + unit) \<times> world" where
  "module_exec name w =
     (if name = ''__main__''
      then (let url = ''https://example.com''
            in case asyncio_run (fetch_data url) w of
                 (Inl e, w1) \<Rightarrow> (Inl e, w1)
               | (Inr response_text, w1) \<Rightarrow> (Inr (), print response_text w1))
      else (Inr (), w))"

text \<open>
  Running the file as a script: the interpreter executes the module as \<^verbatim>\<open>__main__\<close>;
  an exception that leaves the top level is reported as a traceback and the exit status is
  1, otherwise the exit status is 0.
\<close>

definition run_script :: "world \<Rightarrow> int \<times> world" where
  "run_script w =
     (case module_exec ''__main__'' w of
        (Inl e, w1) \<Rightarrow> (1, log_event (Traceback e) w1)
      | (Inr _, w1) \<Rightarrow> (0, w1))"

section \<open>The mock server of the unit test\<close>

text \<open>
  \<^verbatim>\<open>unittest.py\<close> serves \<^verbatim>\<open>GET /test\<close> with the text "Mock response data" and has
  no other route, so every other path on the server answers 404. The port is chosen when
  the test server starts.
\<close>

definition server_prefix :: "string \<Rightarrow> string" where
  "server_prefix port = ''http://localhost:'' @ port"

definition mock_server :: "string \<Rightarrow> remote" where
  "mock_server port url =
     (if url = server_prefix port @ ''/test'' then Inr (200, Inr ''Mock response data'')
      else if take (length (server_prefix port) + 1) url = server_prefix port @ ''/''
      then Inr (404, Inr ''404: Not Found'')
      else Inl ConnectionRefused)"

definition start_world :: "remote \<Rightarrow> world" where
  "start_world r = \<lparr>routes = r, next_session = 0, trace = []\<rparr>"

section \<open>Observations on a trace\<close>

text \<open>The events a call appended to the trace.\<close>

definition events_of_call :: "world \<Rightarrow> world \<Rightarrow> event list" where
  "events_of_call w w' = drop (length (trace w)) (trace w')"

text \<open>The URLs of the GET requests in a trace, in order.\<close>

fun requests_of :: "event list \<Rightarrow> string list" where
  "requests_of [] = []"
| "requests_of (Get s u # es) = u # requests_of es"
| "requests_of (e # es) = requests_of es"

text \<open>What was printed, in order.\<close>

fun stdout_of :: "event list \<Rightarrow> string list" where
  "stdout_of [] = []"
| "stdout_of (Print s # es) = s # stdout_of es"
| "stdout_of (e # es) = stdout_of es"

fun tracebacks_of :: "event list \<Rightarrow> exn list" where
  "tracebacks_of [] = []"
| "tracebacks_of (Traceback x # es) = x # tracebacks_of es"
| "tracebacks_of (e # es) = tracebacks_of es"

text \<open>The sessions a trace leaves open: opened and not closed afterwards.\<close>

fun live_sessions :: "event list \<Rightarrow> nat list \<Rightarrow> nat list" where
  "live_sessions [] acc = acc"
| "live_sessions (SessionOpen k # es) acc = live_sessions es (acc @ [k])"
| "live_sessions (SessionClose k # es) acc = live_sessions es (removeAll k acc)"
| "live_sessions (e # es) acc = live_sessions es acc"

text \<open>No body read happens in the trace before a status check has happened.\<close>

fun checked_before_read :: "event list \<Rightarrow> bool" where
  "checked_before_read [] = True"
| "checked_before_read (StatusChecked s # es) = True"
| "checked_before_read (BodyRead # es) = False"
| "checked_before_read (e # es) = checked_before_read es"

section \<open>Two calls in flight\<close>

text \<open>
  Modelled from the spec: the event loop that runs two calls at once is asyncio's and is
  not among the repository's sources. The specification (section 5) gives the scheduling
  model: single-threaded cooperative concurrency, where a call runs until it suspends and
  other work may run in the meantime, with suspension at connection acquisition, request
  send, response-headers receipt and response-body receipt, and no ordering between
  independent calls.

  A call in flight is \<^verbatim>\<open>fetch_data\<close> stopped somewhere between two of its effects;
  what it has to remember there are its locals: the URL, the session, the response, and
  the value or exception with which it is leaving its \<^verbatim>\<open>async with\<close> blocks.
\<close>

datatype call =
    Start string
  | Opened nat string
  | Requested nat string
  | HaveResponse nat response
  | Checked nat response
  | Releasing nat "exn + string"
  | Closing nat "exn + string"
  | Done nat "exn + string"

text \<open>
  One step runs a call up to its next effect, in the order of lines 15 to 18: the
  session is opened, the GET is sent, the answer arrives, the status is checked, the body
  is read, the response is released, the session is closed. The call may be suspended
  after every single step, which includes the suspension points the specification names.
  A finished call stays as it is.
\<close>

fun step :: "call \<Rightarrow> world \<Rightarrow> call \<times> world" where
  "step (Start url) w =
     (let session = next_session w
      in (Opened session url,
          log_event (SessionOpen session) (w\<lparr>next_session := Suc session\<rparr>)))"
| "step (Opened session url) w = (Requested session url, log_event (Get session url) w)"
| "step (Requested session url) w =
     (case routes w url of
        Inl t \<Rightarrow> (Closing session (Inl (TransportError t)), w)
      | Inr (st, tx) \<Rightarrow>
          (HaveResponse session \<lparr>status = st, request_url = url, text_result = tx\<rparr>, w))"
| "step (HaveResponse session resp) w =
     (case raise_for_status resp w of
        (Inl e, w1) \<Rightarrow> (Releasing session (Inl e), w1)
      | (Inr _, w1) \<Rightarrow> (Checked session resp, w1))"
| "step (Checked session resp) w =
     (case text_of resp w of (r, w1) \<Rightarrow> (Releasing session r, w1))"
| "step (Releasing session r) w = (Closing session r, log_event ResponseRelease w)"
| "step (Closing session r) w = (Done session r, log_event (SessionClose session) w)"
| "step (Done session r) w = (Done session r, w)"

text \<open>
  Two calls on one event loop. The schedule says, step by step, which of the two runs
  next (\<open>True\<close> for the first); any list of choices is a schedule, since no ordering
  between the calls is guaranteed.
\<close>

fun run_two :: "bool list \<Rightarrow> call \<Rightarrow> call \<Rightarrow> world \<Rightarrow> call \<times> call \<times> world" where
  "run_two [] c1 c2 w = (c1, c2, w)"
| "run_two (first # sched) c1 c2 w =
     (if first
      then (case step c1 w of (c1', w') \<Rightarrow> run_two sched c1' c2 w')
      else (case step c2 w of (c2', w') \<Rightarrow> run_two sched c1 c2' w'))"

text \<open>What a call has returned or raised, once it has finished.\<close>

fun result_of :: "call \<Rightarrow> (exn + string) option" where
  "result_of (Done session r) = Some r"
| "result_of c = None"

text \<open>The session a call holds or has held.\<close>

fun session_of :: "call \<Rightarrow> nat option" where
  "session_of (Start url) = None"
| "session_of (Opened session url) = Some session"
| "session_of (Requested session url) = Some session"
| "session_of (HaveResponse session resp) = Some session"
| "session_of (Checked session resp) = Some session"
| "session_of (Releasing session r) = Some session"
| "session_of (Closing session r) = Some session"
| "session_of (Done session r) = Some session"

text \<open>A bound on the steps a call still needs.\<close>

fun remaining :: "call \<Rightarrow> nat" where
  "remaining (Start url) = 7"
| "remaining (Opened session url) = 6"
| "remaining (Requested session url) = 5"
| "remaining (HaveResponse session resp) = 4"
| "remaining (Checked session resp) = 3"
| "remaining (Releasing session r) = 2"
| "remaining (Closing session r) = 1"
| "remaining (Done session r) = 0"

text \<open>
  What a call in flight is bound to deliver, read off its locals and the remote side alone.
  These three functions serve the proofs only: every step of the call keeps the value.
\<close>

definition after_headers :: "response \<Rightarrow> exn + string" where
  "after_headers resp =
     (if 400 \<le> status resp then Inl (ClientResponseError (status resp) (request_url resp))
      else case text_result resp of Inl p \<Rightarrow> Inl (PayloadError p) | Inr s \<Rightarrow> Inr s)"

definition answer :: "remote \<Rightarrow> string \<Rightarrow> exn + string" where
  "answer R url =
     (case R url of
        Inl t \<Rightarrow> Inl (TransportError t)
      | Inr (st, tx) \<Rightarrow> after_headers \<lparr>status = st, request_url = url, text_result = tx\<rparr>)"

fun bound_for :: "remote \<Rightarrow> call \<Rightarrow> exn + string" where
  "bound_for R (Start url) = answer R url"
| "bound_for R (Opened session url) = answer R url"
| "bound_for R (Requested session url) = answer R url"
| "bound_for R (HaveResponse session resp) = after_headers resp"
| "bound_for R (Checked session resp) =
     (case text_result resp of Inl p \<Rightarrow> Inl (PayloadError p) | Inr s \<Rightarrow> Inr s)"
| "bound_for R (Releasing session r) = r"
| "bound_for R (Closing session r) = r"
| "bound_for R (Done session r) = r"

text \<open>
  The sessions of two calls in flight are their own: each was created before now, and
  they are not the same session.
\<close>

definition own_sessions :: "call \<Rightarrow> call \<Rightarrow> world \<Rightarrow> bool" where
  "own_sessions c1 c2 w \<longleftrightarrow>
     (\<forall>k. session_of c1 = Some k \<longrightarrow> k < next_session w)
     \<and> (\<forall>k. session_of c2 = Some k \<longrightarrow> k < next_session w)
     \<and> (\<forall>k. session_of c1 = Some k \<longrightarrow> session_of c2 \<noteq> Some k)"

section \<open>What one call does, outcome by outcome\<close>

lemma fetch_data_transport:
  assumes "routes w url = Inl t"
  shows "fst (fetch_data url w) = Inl (TransportError t)"
    and "trace (snd (fetch_data url w)) =
           trace w @ [SessionOpen (next_session w), Get (next_session w) url,
                      SessionClose (next_session w)]"
  using assms
  by (simp_all add: fetch_data_def with_ClientSession_def with_get_def session_get_def
      log_event_def Let_def)

lemma fetch_data_bad_status:
  assumes "routes w url = Inr (st, tx)" and "400 \<le> st"
  shows "fst (fetch_data url w) = Inl (ClientResponseError st url)"
    and "trace (snd (fetch_data url w)) =
           trace w @ [SessionOpen (next_session w), Get (next_session w) url,
                      StatusChecked st, ResponseRelease, SessionClose (next_session w)]"
  using assms
  by (simp_all add: fetch_data_def with_ClientSession_def with_get_def session_get_def
      raise_for_status_def log_event_def Let_def)

lemma fetch_data_good_status:
  assumes "routes w url = Inr (st, tx)" and "st < 400"
  shows "fst (fetch_data url w) = (case tx of Inl p \<Rightarrow> Inl (PayloadError p) | Inr s \<Rightarrow> Inr s)"
    and "trace (snd (fetch_data url w)) =
           trace w @ [SessionOpen (next_session w), Get (next_session w) url,
                      StatusChecked st, BodyRead, ResponseRelease,
                      SessionClose (next_session w)]"
  using assms
  by (simp_all add: fetch_data_def with_ClientSession_def with_get_def session_get_def
      raise_for_status_def text_of_def log_event_def Let_def)

lemma fetch_data_routes: "routes (snd (fetch_data url w)) = routes w"
  by (simp add: fetch_data_def with_ClientSession_def with_get_def session_get_def
      raise_for_status_def text_of_def log_event_def Let_def split: sum.splits prod.splits)

lemma fetch_data_next_session: "next_session (snd (fetch_data url w)) = Suc (next_session w)"
  by (simp add: fetch_data_def with_ClientSession_def with_get_def session_get_def
      raise_for_status_def text_of_def log_event_def Let_def split: sum.splits prod.splits)

text \<open>Every call falls under one of the three outcome lemmas.\<close>

lemma remote_cases:
  obtains (transport) t where "routes w url = Inl t"
  | (bad) st tx where "routes w url = Inr (st, tx)" and "400 \<le> st"
  | (good) st tx where "routes w url = Inr (st, tx)" and "st < 400"
proof (cases "routes w url")
  case (Inl t)
  then show ?thesis by (rule transport)
next
  case (Inr p)
  obtain st tx where p: "p = (st, tx)" by (cases p)
  show ?thesis
  proof (cases "400 \<le> st")
    case True
    with Inr p show ?thesis by (auto intro: bad)
  next
    case False
    with Inr p show ?thesis by (auto intro: good)
  qed
qed

lemma live_sessions_append:
  "live_sessions (xs @ ys) acc = live_sessions ys (live_sessions xs acc)"
  by (induction xs acc rule: live_sessions.induct) simp_all

lemma removeAll_snoc_fresh: "k \<notin> set xs \<Longrightarrow> removeAll k (xs @ [k]) = xs"
  by (induction xs) auto

lemma module_exec_main_transport:
  assumes "routes w ''https://example.com'' = Inl t"
  shows "fst (module_exec ''__main__'' w) = Inl (TransportError t)"
    and "trace (snd (module_exec ''__main__'' w)) =
           trace w @ [SessionOpen (next_session w), Get (next_session w) ''https://example.com'',
                      SessionClose (next_session w)]"
  using fetch_data_transport [OF assms]
  by (simp_all add: module_exec_def asyncio_run_def case_prod_beta Let_def)

lemma module_exec_main_bad_status:
  assumes "routes w ''https://example.com'' = Inr (st, tx)" and "400 \<le> st"
  shows "fst (module_exec ''__main__'' w) = Inl (ClientResponseError st ''https://example.com'')"
    and "trace (snd (module_exec ''__main__'' w)) =
           trace w @ [SessionOpen (next_session w), Get (next_session w) ''https://example.com'',
                      StatusChecked st, ResponseRelease, SessionClose (next_session w)]"
  using fetch_data_bad_status [OF assms]
  by (simp_all add: module_exec_def asyncio_run_def case_prod_beta Let_def)

lemma module_exec_main_good_status:
  assumes "routes w ''https://example.com'' = Inr (st, tx)" and "st < 400"
  shows "fst (module_exec ''__main__'' w) =
           (case tx of Inl p \<Rightarrow> Inl (PayloadError p) | Inr s \<Rightarrow> Inr ())"
    and "trace (snd (module_exec ''__main__'' w)) =
           trace w @ [SessionOpen (next_session w), Get (next_session w) ''https://example.com'',
                      StatusChecked st, BodyRead, ResponseRelease,
                      SessionClose (next_session w)]
             @ (case tx of Inl p \<Rightarrow> [] | Inr s \<Rightarrow> [Print s])"
  using fetch_data_good_status [OF assms]
  by (cases tx; simp add: module_exec_def asyncio_run_def print_def log_event_def
      case_prod_beta Let_def)+

lemma raise_for_status_threshold:
  "(\<exists>e. fst (raise_for_status resp w) = Inl e) \<longleftrightarrow> 400 \<le> status resp"
  by (simp add: raise_for_status_def)

text \<open>
  The result of a call is a function of what the route answers for its URL, and the
  calls in flight keep what they are bound to deliver, whichever of them is stepped.
\<close>

lemma fetch_data_answer: "fst (fetch_data url w) = answer (routes w) url"
proof (cases rule: remote_cases [of w url])
  case (transport t)
  then show ?thesis by (simp add: fetch_data_transport(1) answer_def)
next
  case (bad st tx)
  then show ?thesis by (simp add: fetch_data_bad_status(1) answer_def after_headers_def)
next
  case (good st tx)
  then show ?thesis by (simp add: fetch_data_good_status(1) answer_def after_headers_def)
qed

lemma step_routes: "routes (snd (step c w)) = routes w"
  by (cases c)
     (simp_all add: log_event_def raise_for_status_def text_of_def Let_def
        split: sum.splits prod.splits)

lemma step_bound_for: "bound_for (routes w) (fst (step c w)) = bound_for (routes w) c"
  by (cases c)
     (auto simp add: log_event_def raise_for_status_def text_of_def Let_def answer_def
        after_headers_def split: sum.splits prod.splits)

lemma step_remaining: "remaining (fst (step c w)) \<le> remaining c - 1"
  by (cases c)
     (simp_all add: raise_for_status_def text_of_def Let_def split: sum.splits prod.splits)

lemma step_next_session: "next_session w \<le> next_session (snd (step c w))"
  by (cases c)
     (simp_all add: log_event_def raise_for_status_def text_of_def Let_def
        split: sum.splits prod.splits)

lemma step_session_kept:
  "session_of c = Some k \<Longrightarrow> session_of (fst (step c w)) = Some k"
  by (cases c)
     (simp_all add: raise_for_status_def text_of_def Let_def split: sum.splits prod.splits)

lemma step_session_fresh:
  "session_of c = None \<Longrightarrow>
     session_of (fst (step c w)) = Some (next_session w)
     \<and> next_session (snd (step c w)) = Suc (next_session w)"
  by (cases c) (simp_all add: log_event_def Let_def)

lemma step_session_counter:
  "session_of c = Some k \<Longrightarrow> next_session (snd (step c w)) = next_session w"
  by (cases c)
     (simp_all add: log_event_def raise_for_status_def text_of_def Let_def
        split: sum.splits prod.splits)

lemma own_sessions_step1:
  assumes "own_sessions c1 c2 w"
  shows "own_sessions (fst (step c1 w)) c2 (snd (step c1 w))"
proof (cases "session_of c1")
  case None
  from step_session_fresh [OF None, of w] assms show ?thesis
    by (auto simp add: own_sessions_def)
next
  case (Some k)
  from step_session_kept [OF Some, of w] step_session_counter [OF Some, of w] Some assms
  show ?thesis
    by (auto simp add: own_sessions_def)
qed

lemma own_sessions_step2:
  assumes "own_sessions c1 c2 w"
  shows "own_sessions c1 (fst (step c2 w)) (snd (step c2 w))"
proof (cases "session_of c2")
  case None
  from step_session_fresh [OF None, of w] assms show ?thesis
    by (auto simp add: own_sessions_def)
next
  case (Some k)
  from step_session_kept [OF Some, of w] step_session_counter [OF Some, of w] Some assms
  show ?thesis
    by (auto simp add: own_sessions_def)
qed

lemma run_two_routes: "routes (snd (snd (run_two sched c1 c2 w))) = routes w"
  by (induction sched arbitrary: c1 c2 w) (simp_all add: case_prod_beta step_routes)

lemma run_two_bound_for:
  "bound_for (routes w) (fst (run_two sched ca cb w)) = bound_for (routes w) ca
   \<and> bound_for (routes w) (fst (snd (run_two sched ca cb w))) = bound_for (routes w) cb"
proof (induction sched arbitrary: ca cb w)
  case Nil
  show ?case by simp
next
  case (Cons first sched)
  show ?case
  proof (cases first)
    case True
    from Cons [where ca = "fst (step ca w)" and cb = cb and w = "snd (step ca w)"]
      step_bound_for [of w ca]
    show ?thesis using True by (simp add: case_prod_beta step_routes)
  next
    case False
    from Cons [where ca = ca and cb = "fst (step cb w)" and w = "snd (step cb w)"]
      step_bound_for [of w cb]
    show ?thesis using False by (simp add: case_prod_beta step_routes)
  qed
qed

lemma run_two_remaining:
  "remaining (fst (run_two sched ca cb w)) \<le> remaining ca - count_list sched True
   \<and> remaining (fst (snd (run_two sched ca cb w))) \<le> remaining cb - count_list sched False"
proof (induction sched arbitrary: ca cb w)
  case Nil
  show ?case by simp
next
  case (Cons first sched)
  show ?case
  proof (cases first)
    case True
    from Cons [where ca = "fst (step ca w)" and cb = cb and w = "snd (step ca w)"]
      step_remaining [of ca w]
    show ?thesis using True by (auto simp add: case_prod_beta)
  next
    case False
    from Cons [where ca = ca and cb = "fst (step cb w)" and w = "snd (step cb w)"]
      step_remaining [of cb w]
    show ?thesis using False by (auto simp add: case_prod_beta)
  qed
qed

lemma run_two_own_sessions:
  "own_sessions c1 c2 w \<Longrightarrow>
     own_sessions (fst (run_two sched c1 c2 w)) (fst (snd (run_two sched c1 c2 w)))
       (snd (snd (run_two sched c1 c2 w)))"
proof (induction sched arbitrary: c1 c2 w)
  case Nil
  then show ?case by simp
next
  case (Cons first sched)
  show ?case
  proof (cases first)
    case True
    from Cons.IH [OF own_sessions_step1 [OF Cons.prems]] True
    show ?thesis by (simp add: case_prod_beta)
  next
    case False
    from Cons.IH [OF own_sessions_step2 [OF Cons.prems]] False
    show ?thesis by (simp add: case_prod_beta)
  qed
qed

lemma remaining_0: "remaining c = 0 \<Longrightarrow> \<exists>k r. c = Done k r"
  by (cases c) simp_all

lemma result_of_bound_for: "result_of c = Some r \<Longrightarrow> bound_for R c = r"
  by (cases c) simp_all

lemma run_alone_is_fetch_data:
  "run_two (replicate 7 True) (Start url) c2 w
     = (Done (next_session w) (fst (fetch_data url w)), c2, snd (fetch_data url w))"
proof (cases rule: remote_cases [of w url])
  case (transport t)
  then show ?thesis
    by (simp add: eval_nat_numeral fetch_data_def with_ClientSession_def with_get_def session_get_def
      raise_for_status_def text_of_def log_event_def Let_def)
next
  case (bad st tx)
  then show ?thesis
    by (simp add: eval_nat_numeral fetch_data_def with_ClientSession_def with_get_def session_get_def
      raise_for_status_def text_of_def log_event_def Let_def)
next
  case (good st tx)
  then show ?thesis
    by (simp add: eval_nat_numeral fetch_data_def with_ClientSession_def with_get_def session_get_def
      raise_for_status_def text_of_def log_event_def Let_def)
qed


lemma own_sessions_Start: "own_sessions (Start u1) (Start u2) w"
  by (simp add: own_sessions_def)

lemma run_two_result:
  "result_of (fst (run_two sched (Start u1) (Start u2) w)) = Some r \<Longrightarrow> r = fst (fetch_data u1 w)"
  "result_of (fst (snd (run_two sched (Start u1) (Start u2) w))) = Some r \<Longrightarrow>
     r = fst (fetch_data u2 w)"
  using run_two_bound_for [of w sched "Start u1" "Start u2"]
  by (auto dest: result_of_bound_for [where R = "routes w"] simp add: fetch_data_answer)

lemma run_two_finished:
  "7 \<le> count_list sched True \<Longrightarrow>
     \<exists>k r. fst (run_two sched (Start u1) (Start u2) w) = Done k r"
  "7 \<le> count_list sched False \<Longrightarrow>
     \<exists>k r. fst (snd (run_two sched (Start u1) (Start u2) w)) = Done k r"
  using run_two_remaining [of sched "Start u1" "Start u2" w]
  by (auto intro!: remaining_0)

section \<open>The claims\<close>

text \<open>
  C1. When the remote side answers the URL with status 200 and the body
  "Mock response data", \<open>fetch_data\<close> returns exactly that string; more generally, for
  every status below 400 (every success status among them) the decoded body is returned
  unchanged.
\<close>

theorem fetch_data_returns_body:
  "(routes w url = Inr (200, Inr ''Mock response data'')
      \<longrightarrow> fst (fetch_data url w) = Inr ''Mock response data'')
   \<and> (\<forall>st b. routes w url = Inr (st, Inr b) \<and> st < 400 \<longrightarrow> fst (fetch_data url w) = Inr b)"
  by (simp add: fetch_data_good_status(1))

theorem fetch_data_returns_body_witness:
  "routes (start_world (mock_server ''8080'')) ''http://localhost:8080/test''
     = Inr (200, Inr ''Mock response data'')
   \<and> fst (fetch_data ''http://localhost:8080/test'' (start_world (mock_server ''8080'')))
     = Inr ''Mock response data''"
  using fetch_data_returns_body
    [of "start_world (mock_server ''8080'')" "''http://localhost:8080/test''"]
  by (simp add: start_world_def mock_server_def server_prefix_def)

text \<open>
  C2. When the remote side answers the URL with a status of 400 or more (404, say),
  \<open>fetch_data\<close> raises the status error carrying that status code and the requested
  URL, and returns no string.
\<close>

theorem fetch_data_raises_for_bad_status:
  "routes w url = Inr (st, tx) \<Longrightarrow> 400 \<le> st \<Longrightarrow>
     fst (fetch_data url w) = Inl (ClientResponseError st url)
     \<and> (\<forall>s. fst (fetch_data url w) \<noteq> Inr s)"
  by (simp add: fetch_data_bad_status(1))

theorem fetch_data_raises_for_bad_status_witness:
  "routes (start_world (mock_server ''8080'')) ''http://localhost:8080/nonexistent''
     = Inr (404, Inr ''404: Not Found'')
   \<and> (400::int) \<le> 404
   \<and> fst (fetch_data ''http://localhost:8080/nonexistent'' (start_world (mock_server ''8080'')))
     = Inl (ClientResponseError 404 ''http://localhost:8080/nonexistent'')
   \<and> (\<forall>s. fst (fetch_data ''http://localhost:8080/nonexistent''
                (start_world (mock_server ''8080''))) \<noteq> Inr s)"
proof -
  have r: "routes (start_world (mock_server ''8080'')) ''http://localhost:8080/nonexistent''
             = Inr (404, Inr ''404: Not Found'')"
    by (simp add: start_world_def mock_server_def server_prefix_def)
  have b: "(400::int) \<le> 404" by simp
  from fetch_data_raises_for_bad_status [OF r b] r b show ?thesis by simp
qed

text \<open>
  C3. When the request fails before any status code is obtained (DNS failure, refused
  connection, transport timeout, unreachable host), \<open>fetch_data\<close> raises the transport
  error. It reaches the caller as it is: the call issued that one GET and no other, read
  no body, and returned no string.
\<close>

theorem fetch_data_transport_error:
  "routes w url = Inl t \<Longrightarrow>
     fst (fetch_data url w) = Inl (TransportError t)
     \<and> requests_of (events_of_call w (snd (fetch_data url w))) = [url]
     \<and> BodyRead \<notin> set (events_of_call w (snd (fetch_data url w)))"
  by (simp add: fetch_data_transport events_of_call_def)

theorem fetch_data_transport_error_witness:
  "routes (start_world (mock_server ''8080'')) ''http://localhost:1/test'' = Inl ConnectionRefused
   \<and> fst (fetch_data ''http://localhost:1/test'' (start_world (mock_server ''8080'')))
     = Inl (TransportError ConnectionRefused)
   \<and> requests_of (events_of_call (start_world (mock_server ''8080''))
        (snd (fetch_data ''http://localhost:1/test'' (start_world (mock_server ''8080'')))))
     = [''http://localhost:1/test'']
   \<and> BodyRead \<notin> set (events_of_call (start_world (mock_server ''8080''))
        (snd (fetch_data ''http://localhost:1/test'' (start_world (mock_server ''8080'')))))"
proof -
  have r: "routes (start_world (mock_server ''8080'')) ''http://localhost:1/test''
             = Inl ConnectionRefused"
    by (simp add: start_world_def mock_server_def server_prefix_def)
  from fetch_data_transport_error [OF r] r show ?thesis by simp
qed

text \<open>
  C4. The session a call acquires is released on every exit path: whatever the remote
  side does, the events of the call start with the opening of a fresh session and end
  with the closing of that same session, the call alone leaves no session open, and the
  sessions open after the call are those that were open before it.
\<close>

theorem fetch_data_releases_session:
  "trace (snd (fetch_data url w)) = trace w @ events_of_call w (snd (fetch_data url w))
   \<and> hd (events_of_call w (snd (fetch_data url w))) = SessionOpen (next_session w)
   \<and> last (events_of_call w (snd (fetch_data url w))) = SessionClose (next_session w)
   \<and> live_sessions (events_of_call w (snd (fetch_data url w))) [] = []
   \<and> (next_session w \<notin> set (live_sessions (trace w) []) \<longrightarrow>
        live_sessions (trace (snd (fetch_data url w))) [] = live_sessions (trace w) [])"
proof (cases rule: remote_cases [of w url])
  case (transport t)
  then show ?thesis
    by (simp add: fetch_data_transport(2) events_of_call_def live_sessions_append
        removeAll_snoc_fresh)
next
  case (bad st tx)
  then show ?thesis
    by (simp add: fetch_data_bad_status(2) events_of_call_def live_sessions_append
        removeAll_snoc_fresh)
next
  case (good st tx)
  then show ?thesis
    by (simp add: fetch_data_good_status(2) events_of_call_def live_sessions_append
        removeAll_snoc_fresh)
qed

theorem fetch_data_releases_session_witness:
  "next_session (start_world (mock_server ''8080''))
     \<notin> set (live_sessions (trace (start_world (mock_server ''8080''))) [])
   \<and> live_sessions (trace (snd (fetch_data ''http://localhost:8080/nonexistent''
        (start_world (mock_server ''8080''))))) [] = []
   \<and> last (events_of_call (start_world (mock_server ''8080''))
        (snd (fetch_data ''http://localhost:8080/nonexistent''
           (start_world (mock_server ''8080''))))) = SessionClose 0"
  using fetch_data_releases_session
    [of "''http://localhost:8080/nonexistent''" "start_world (mock_server ''8080'')"]
  by (simp add: start_world_def)

text \<open>
  C5. In every call the status is inspected before the body is read. The body is read
  exactly when the remote side answered with a status below 400. When the status is 400
  or more the call fails at the check: the status error is the result, the body is never
  read, and nothing follows the check but the release of the response and of the session.
\<close>

theorem fetch_data_checks_status_first:
  "checked_before_read (events_of_call w (snd (fetch_data url w)))
   \<and> (BodyRead \<in> set (events_of_call w (snd (fetch_data url w)))
        \<longleftrightarrow> (\<exists>st tx. routes w url = Inr (st, tx) \<and> st < 400))
   \<and> (\<forall>st tx. routes w url = Inr (st, tx) \<and> 400 \<le> st \<longrightarrow>
        fst (fetch_data url w) = Inl (ClientResponseError st url)
        \<and> BodyRead \<notin> set (events_of_call w (snd (fetch_data url w)))
        \<and> dropWhile (\<lambda>e. e \<noteq> StatusChecked st) (events_of_call w (snd (fetch_data url w)))
            = [StatusChecked st, ResponseRelease, SessionClose (next_session w)])"
proof (cases rule: remote_cases [of w url])
  case (transport t)
  then show ?thesis
    by (simp add: fetch_data_transport events_of_call_def)
next
  case (bad st tx)
  then show ?thesis
    by (simp add: fetch_data_bad_status events_of_call_def)
next
  case (good st tx)
  then show ?thesis
    by (simp add: fetch_data_good_status events_of_call_def)
qed

theorem fetch_data_checks_status_first_witness:
  "routes (start_world (mock_server ''8080'')) ''http://localhost:8080/nonexistent''
     = Inr (404, Inr ''404: Not Found'')
   \<and> (400::int) \<le> 404
   \<and> fst (fetch_data ''http://localhost:8080/nonexistent'' (start_world (mock_server ''8080'')))
     = Inl (ClientResponseError 404 ''http://localhost:8080/nonexistent'')
   \<and> BodyRead \<notin> set (events_of_call (start_world (mock_server ''8080''))
        (snd (fetch_data ''http://localhost:8080/nonexistent''
           (start_world (mock_server ''8080'')))))
   \<and> BodyRead \<in> set (events_of_call (start_world (mock_server ''8080''))
        (snd (fetch_data ''http://localhost:8080/test'' (start_world (mock_server ''8080'')))))"
proof -
  have r: "routes (start_world (mock_server ''8080'')) ''http://localhost:8080/nonexistent''
             = Inr (404, Inr ''404: Not Found'')"
    by (simp add: start_world_def mock_server_def server_prefix_def)
  have g: "routes (start_world (mock_server ''8080'')) ''http://localhost:8080/test''
             = Inr (200, Inr ''Mock response data'')"
    by (simp add: start_world_def mock_server_def server_prefix_def)
  from fetch_data_checks_status_first
         [of "start_world (mock_server ''8080'')" "''http://localhost:8080/nonexistent''"]
       fetch_data_checks_status_first
         [of "start_world (mock_server ''8080'')" "''http://localhost:8080/test''"]
       r g
  show ?thesis by simp
qed

text \<open>
  C6. Two calls with the same URL against a success route: when the first call returned
  a body and the remote side answers that URL as before when the second call starts,
  the second call returns the same body, and each of the two calls issues its own GET for
  the URL. The first call itself leaves the remote side as it was, so the second call may
  start in the world the first one left.
\<close>

theorem fetch_data_twice:
  "fst (fetch_data url w) = Inr b \<Longrightarrow> routes w' url = routes w url \<Longrightarrow>
     fst (fetch_data url w') = Inr b
     \<and> requests_of (events_of_call w (snd (fetch_data url w))) = [url]
     \<and> requests_of (events_of_call w' (snd (fetch_data url w'))) = [url]
     \<and> routes (snd (fetch_data url w)) url = routes w url"
proof -
  assume first: "fst (fetch_data url w) = Inr b" and same: "routes w' url = routes w url"
  show ?thesis
  proof (cases rule: remote_cases [of w url])
    case (transport t)
    with first show ?thesis by (simp add: fetch_data_transport(1))
  next
    case (bad st tx)
    with first show ?thesis by (simp add: fetch_data_bad_status(1))
  next
    case (good st tx)
    with same have good': "routes w' url = Inr (st, tx)" by simp
    from first good have "fst (fetch_data url w') = Inr b"
      by (simp add: fetch_data_good_status(1) [OF good(1) good(2)]
          fetch_data_good_status(1) [OF good' good(2)])
    moreover have "requests_of (events_of_call w (snd (fetch_data url w))) = [url]"
      by (simp add: fetch_data_good_status(2) [OF good(1) good(2)] events_of_call_def)
    moreover have "requests_of (events_of_call w' (snd (fetch_data url w'))) = [url]"
      by (simp add: fetch_data_good_status(2) [OF good' good(2)] events_of_call_def)
    ultimately show ?thesis by (simp add: fetch_data_routes)
  qed
qed

theorem fetch_data_twice_witness:
  "fst (fetch_data ''http://localhost:8080/test'' (start_world (mock_server ''8080'')))
     = Inr ''Mock response data''
   \<and> routes (snd (fetch_data ''http://localhost:8080/test'' (start_world (mock_server ''8080''))))
        ''http://localhost:8080/test''
     = routes (start_world (mock_server ''8080'')) ''http://localhost:8080/test''
   \<and> fst (fetch_data ''http://localhost:8080/test''
        (snd (fetch_data ''http://localhost:8080/test'' (start_world (mock_server ''8080'')))))
     = Inr ''Mock response data''
   \<and> requests_of (trace (snd (fetch_data ''http://localhost:8080/test''
        (snd (fetch_data ''http://localhost:8080/test'' (start_world (mock_server ''8080'')))))))
     = [''http://localhost:8080/test'', ''http://localhost:8080/test'']"
proof -
  let ?u = "''http://localhost:8080/test''"
  let ?w = "start_world (mock_server ''8080'')"
  have r: "routes ?w ?u = Inr (200, Inr ''Mock response data'')"
    by (simp add: start_world_def mock_server_def server_prefix_def)
  have ok: "(200::int) < 400" by simp
  have first: "fst (fetch_data ?u ?w) = Inr ''Mock response data''"
    by (simp add: fetch_data_good_status(1) [OF r ok])
  have same: "routes (snd (fetch_data ?u ?w)) ?u = routes ?w ?u"
    by (simp add: fetch_data_routes)
  have r': "routes (snd (fetch_data ?u ?w)) ?u = Inr (200, Inr ''Mock response data'')"
    using same r by simp
  have t0: "trace ?w = []" and n0: "next_session ?w = 0"
    by (simp_all add: start_world_def)
  have tr: "trace (snd (fetch_data ?u (snd (fetch_data ?u ?w)))) =
              [SessionOpen 0, Get 0 ?u, StatusChecked 200, BodyRead, ResponseRelease,
               SessionClose 0,
               SessionOpen 1, Get 1 ?u, StatusChecked 200, BodyRead, ResponseRelease,
               SessionClose 1]"
    unfolding fetch_data_good_status(2) [OF r' ok] fetch_data_good_status(2) [OF r ok]
      fetch_data_next_session t0 n0
    by simp
  from fetch_data_twice [OF first same] first same tr show ?thesis by simp
qed

text \<open>
  C7. Two calls in flight at once do not interfere. The value a call returns depends only
  on its own URL and on what the route answers for it: it is the same in every world
  whose route answers that URL alike, and a call for another URL run in between does not
  change it. When the two calls are interleaved at their suspension points under any
  schedule, a call that has finished has returned what it returns when run alone, a call
  that was scheduled for seven steps has finished, the two calls never hold the same
  session, and the remote side is left as it was.
\<close>

theorem concurrent_calls_do_not_interfere:
  "(routes wa u1 = routes w u1 \<longrightarrow> fst (fetch_data u1 wa) = fst (fetch_data u1 w))
   \<and> fst (fetch_data u1 (snd (fetch_data u2 w))) = fst (fetch_data u1 w)
   \<and> (\<forall>r. result_of (fst (run_two sched (Start u1) (Start u2) w)) = Some r \<longrightarrow>
          r = fst (fetch_data u1 w))
   \<and> (\<forall>r. result_of (fst (snd (run_two sched (Start u1) (Start u2) w))) = Some r \<longrightarrow>
          r = fst (fetch_data u2 w))
   \<and> (7 \<le> count_list sched True \<longrightarrow>
          result_of (fst (run_two sched (Start u1) (Start u2) w)) = Some (fst (fetch_data u1 w)))
   \<and> (7 \<le> count_list sched False \<longrightarrow>
          result_of (fst (snd (run_two sched (Start u1) (Start u2) w)))
            = Some (fst (fetch_data u2 w)))
   \<and> (\<forall>k. session_of (fst (run_two sched (Start u1) (Start u2) w)) = Some k \<longrightarrow>
          session_of (fst (snd (run_two sched (Start u1) (Start u2) w))) \<noteq> Some k)
   \<and> routes (snd (snd (run_two sched (Start u1) (Start u2) w))) = routes w"
proof -
  have dep: "routes wa u1 = routes w u1 \<longrightarrow> fst (fetch_data u1 wa) = fst (fetch_data u1 w)"
    by (simp add: fetch_data_answer answer_def)
  have between: "fst (fetch_data u1 (snd (fetch_data u2 w))) = fst (fetch_data u1 w)"
    by (simp add: fetch_data_answer fetch_data_routes)
  have fin1: "result_of (fst (run_two sched (Start u1) (Start u2) w)) = Some (fst (fetch_data u1 w))"
    if "7 \<le> count_list sched True"
  proof -
    from run_two_finished(1) [OF that, of u1 u2 w]
    obtain k r where d: "fst (run_two sched (Start u1) (Start u2) w) = Done k r" by blast
    then have "result_of (fst (run_two sched (Start u1) (Start u2) w)) = Some r" by simp
    from run_two_result(1) [OF this] d show ?thesis by simp
  qed
  have fin2: "result_of (fst (snd (run_two sched (Start u1) (Start u2) w)))
                = Some (fst (fetch_data u2 w))"
    if "7 \<le> count_list sched False"
  proof -
    from run_two_finished(2) [OF that, of u1 u2 w]
    obtain k r where d: "fst (snd (run_two sched (Start u1) (Start u2) w)) = Done k r" by blast
    then have "result_of (fst (snd (run_two sched (Start u1) (Start u2) w))) = Some r" by simp
    from run_two_result(2) [OF this] d show ?thesis by simp
  qed
  have own: "\<forall>k. session_of (fst (run_two sched (Start u1) (Start u2) w)) = Some k \<longrightarrow>
               session_of (fst (snd (run_two sched (Start u1) (Start u2) w))) \<noteq> Some k"
    using run_two_own_sessions [OF own_sessions_Start, of sched u1 u2 w]
    by (simp add: own_sessions_def)
  from dep between fin1 fin2 own show ?thesis
    by (auto dest: run_two_result simp add: run_two_routes)
qed

theorem concurrent_calls_do_not_interfere_witness:
  "(7::nat) \<le> count_list [True, False, False, True, True, False, True, False, False, True,
                            True, False, True, False, True, False] True
   \<and> (7::nat) \<le> count_list [True, False, False, True, True, False, True, False, False, True,
                              True, False, True, False, True, False] False
   \<and> routes (snd (fetch_data ''http://localhost:8080/nonexistent''
         (start_world (mock_server ''8080'')))) ''http://localhost:8080/test''
       = routes (start_world (mock_server ''8080'')) ''http://localhost:8080/test''
   \<and> fst (fetch_data ''http://localhost:8080/test''
         (snd (fetch_data ''http://localhost:8080/nonexistent''
            (start_world (mock_server ''8080'')))))
       = Inr ''Mock response data''
   \<and> result_of (fst (run_two
         [True, False, False, True, True, False, True, False, False, True,
          True, False, True, False, True, False]
         (Start ''http://localhost:8080/test'') (Start ''http://localhost:8080/nonexistent'')
         (start_world (mock_server ''8080''))))
       = Some (Inr ''Mock response data'')
   \<and> result_of (fst (snd (run_two
         [True, False, False, True, True, False, True, False, False, True,
          True, False, True, False, True, False]
         (Start ''http://localhost:8080/test'') (Start ''http://localhost:8080/nonexistent'')
         (start_world (mock_server ''8080'')))))
       = Some (Inl (ClientResponseError 404 ''http://localhost:8080/nonexistent''))
   \<and> session_of (fst (run_two
         [True, False, False, True, True, False, True, False, False, True,
          True, False, True, False, True, False]
         (Start ''http://localhost:8080/test'') (Start ''http://localhost:8080/nonexistent'')
         (start_world (mock_server ''8080''))))
       = Some 0
   \<and> session_of (fst (snd (run_two
         [True, False, False, True, True, False, True, False, False, True,
          True, False, True, False, True, False]
         (Start ''http://localhost:8080/test'') (Start ''http://localhost:8080/nonexistent'')
         (start_world (mock_server ''8080'')))))
       \<noteq> Some 0
   \<and> trace (snd (snd (run_two
         [True, False, False, True, True, False, True, False, False, True,
          True, False, True, False, True, False]
         (Start ''http://localhost:8080/test'') (Start ''http://localhost:8080/nonexistent'')
         (start_world (mock_server ''8080'')))))
       = [SessionOpen 0, SessionOpen 1, Get 1 ''http://localhost:8080/nonexistent'',
          Get 0 ''http://localhost:8080/test'', StatusChecked 200, StatusChecked 404,
          ResponseRelease, BodyRead, ResponseRelease, SessionClose 1, SessionClose 0]"
proof -
  let ?s = "[True, False, False, True, True, False, True, False, False, True,
             True, False, True, False, True, False]"
  let ?u1 = "''http://localhost:8080/test''"
  let ?u2 = "''http://localhost:8080/nonexistent''"
  let ?w = "start_world (mock_server ''8080'')"
  note main = concurrent_calls_do_not_interfere [of "snd (fetch_data ?u2 ?w)" ?u1 ?w ?u2 ?s]
  have n1: "(7::nat) \<le> count_list ?s True" by simp
  have n2: "(7::nat) \<le> count_list ?s False" by simp
  have r1: "routes ?w ?u1 = Inr (200, Inr ''Mock response data'')"
    by (simp add: start_world_def mock_server_def server_prefix_def)
  have r2: "routes ?w ?u2 = Inr (404, Inr ''404: Not Found'')"
    by (simp add: start_world_def mock_server_def server_prefix_def)
  have f1: "fst (fetch_data ?u1 ?w) = Inr ''Mock response data''"
    using fetch_data_good_status(1) [OF r1] by simp
  have f2: "fst (fetch_data ?u2 ?w) = Inl (ClientResponseError 404 ?u2)"
    using fetch_data_bad_status(1) [OF r2] by simp
  have same: "routes (snd (fetch_data ?u2 ?w)) ?u1 = routes ?w ?u1"
    by (simp add: fetch_data_routes)
  from main same have "fst (fetch_data ?u1 (snd (fetch_data ?u2 ?w))) = fst (fetch_data ?u1 ?w)"
    by blast
  with f1 have a: "fst (fetch_data ?u1 (snd (fetch_data ?u2 ?w))) = Inr ''Mock response data''"
    by (simp only:)
  from main n1
  have "result_of (fst (run_two ?s (Start ?u1) (Start ?u2) ?w)) = Some (fst (fetch_data ?u1 ?w))"
    by blast
  with f1 have b: "result_of (fst (run_two ?s (Start ?u1) (Start ?u2) ?w))
                     = Some (Inr ''Mock response data'')"
    by (simp only:)
  from main n2
  have "result_of (fst (snd (run_two ?s (Start ?u1) (Start ?u2) ?w)))
          = Some (fst (fetch_data ?u2 ?w))"
    by blast
  with f2 have c: "result_of (fst (snd (run_two ?s (Start ?u1) (Start ?u2) ?w)))
                     = Some (Inl (ClientResponseError 404 ?u2))"
    by (simp only:)
  have s1: "session_of (fst (run_two ?s (Start ?u1) (Start ?u2) ?w)) = Some 0"
    by (simp add: start_world_def log_event_def raise_for_status_def text_of_def Let_def
        mock_server_def server_prefix_def)
  from main s1
  have d: "session_of (fst (snd (run_two ?s (Start ?u1) (Start ?u2) ?w))) \<noteq> Some 0"
    by blast
  have tr: "trace (snd (snd (run_two ?s (Start ?u1) (Start ?u2) ?w)))
              = [SessionOpen 0, SessionOpen 1, Get 1 ?u2, Get 0 ?u1, StatusChecked 200,
                 StatusChecked 404, ResponseRelease, BodyRead, ResponseRelease,
                 SessionClose 1, SessionClose 0]"
    by (simp add: start_world_def log_event_def raise_for_status_def text_of_def Let_def
        mock_server_def server_prefix_def)
  from n1 n2 same a b c s1 d tr show ?thesis
    by (intro conjI)
qed

text \<open>
  C8. Run as a script, the module issues exactly one GET, for the hardcoded URL
  https://example.com, through \<open>fetch_data\<close>. When \<open>fetch_data\<close> returns a text, that
  text is printed and the exit status is 0 with no traceback; when it raises, nothing is
  printed, the exception is reported as a traceback and the exit status is 1.
\<close>

theorem run_script_fetches_and_prints:
  "requests_of (events_of_call w (snd (run_script w))) = [''https://example.com'']
   \<and> (case fst (fetch_data ''https://example.com'' w) of
         Inr response_text \<Rightarrow>
           fst (run_script w) = 0
           \<and> stdout_of (events_of_call w (snd (run_script w))) = [response_text]
           \<and> tracebacks_of (events_of_call w (snd (run_script w))) = []
       | Inl e \<Rightarrow>
           fst (run_script w) = 1
           \<and> stdout_of (events_of_call w (snd (run_script w))) = []
           \<and> tracebacks_of (events_of_call w (snd (run_script w))) = [e])"
proof (cases rule: remote_cases [of w "''https://example.com''"])
  case (transport t)
  from module_exec_main_transport [OF transport] fetch_data_transport(1) [OF transport]
  show ?thesis
    by (simp add: run_script_def events_of_call_def log_event_def case_prod_beta)
next
  case (bad st tx)
  from module_exec_main_bad_status [OF bad] fetch_data_bad_status(1) [OF bad]
  show ?thesis
    by (simp add: run_script_def events_of_call_def log_event_def case_prod_beta)
next
  case (good st tx)
  from module_exec_main_good_status [OF good] fetch_data_good_status(1) [OF good]
  show ?thesis
    by (cases tx)
       (simp_all add: run_script_def events_of_call_def log_event_def case_prod_beta)
qed

theorem run_script_fetches_and_prints_witness:
  "requests_of (events_of_call (start_world (\<lambda>u. Inr (200, Inr ''<html>Example Domain</html>'')))
      (snd (run_script (start_world (\<lambda>u. Inr (200, Inr ''<html>Example Domain</html>''))))))
     = [''https://example.com'']
   \<and> fst (run_script (start_world (\<lambda>u. Inr (200, Inr ''<html>Example Domain</html>'')))) = 0
   \<and> stdout_of (events_of_call (start_world (\<lambda>u. Inr (200, Inr ''<html>Example Domain</html>'')))
      (snd (run_script (start_world (\<lambda>u. Inr (200, Inr ''<html>Example Domain</html>''))))))
     = [''<html>Example Domain</html>'']
   \<and> fst (run_script (start_world (\<lambda>u. Inl DNSFailure))) = 1
   \<and> stdout_of (events_of_call (start_world (\<lambda>u. Inl DNSFailure))
      (snd (run_script (start_world (\<lambda>u. Inl DNSFailure))))) = []
   \<and> tracebacks_of (events_of_call (start_world (\<lambda>u. Inl DNSFailure))
      (snd (run_script (start_world (\<lambda>u. Inl DNSFailure))))) = [TransportError DNSFailure]"
proof -
  let ?up = "start_world (\<lambda>u. Inr (200, Inr ''<html>Example Domain</html>''))"
  let ?down = "start_world (\<lambda>u. Inl DNSFailure)"
  have up: "routes ?up ''https://example.com'' = Inr (200, Inr ''<html>Example Domain</html>'')"
    by (simp add: start_world_def)
  have ok: "(200::int) < 400" by simp
  have down: "routes ?down ''https://example.com'' = Inl DNSFailure"
    by (simp add: start_world_def)
  from run_script_fetches_and_prints [of ?up] run_script_fetches_and_prints [of ?down]
       fetch_data_good_status(1) [OF up ok] fetch_data_transport(1) [OF down]
  show ?thesis by simp
qed

text \<open>
  C9. For a response with status \<open>st\<close>, \<open>fetch_data\<close> raises the status error exactly
  when \<open>st\<close> is 400 or more. For every status below 400 (1xx and unfollowed 3xx
  included) the status check passes, the body is read, and its text is what the call
  returns.
\<close>

theorem fetch_data_raises_iff_400:
  "routes w url = Inr (st, tx) \<Longrightarrow>
     ((\<exists>c u. fst (fetch_data url w) = Inl (ClientResponseError c u)) \<longleftrightarrow> 400 \<le> st)
     \<and> (400 \<le> st \<longrightarrow> fst (fetch_data url w) = Inl (ClientResponseError st url))
     \<and> (st < 400 \<longrightarrow>
          StatusChecked st \<in> set (events_of_call w (snd (fetch_data url w)))
          \<and> BodyRead \<in> set (events_of_call w (snd (fetch_data url w)))
          \<and> (\<forall>b. tx = Inr b \<longrightarrow> fst (fetch_data url w) = Inr b))"
proof (cases "400 \<le> st")
  case True
  assume "routes w url = Inr (st, tx)"
  from fetch_data_bad_status [OF this True] True show ?thesis by simp
next
  case False
  then have lt: "st < 400" by simp
  assume "routes w url = Inr (st, tx)"
  from fetch_data_good_status [OF this lt] lt show ?thesis
    by (cases tx) (simp_all add: events_of_call_def)
qed

theorem fetch_data_raises_iff_400_witness:
  "routes (start_world (\<lambda>u. Inr (301, Inr ''Moved Permanently''))) ''http://a/old''
     = Inr (301, Inr ''Moved Permanently'')
   \<and> (301::int) < 400
   \<and> fst (fetch_data ''http://a/old'' (start_world (\<lambda>u. Inr (301, Inr ''Moved Permanently''))))
     = Inr ''Moved Permanently''
   \<and> routes (start_world (\<lambda>u. Inr (400, Inr ''Bad Request''))) ''http://a/old''
     = Inr (400, Inr ''Bad Request'')
   \<and> (400::int) \<le> 400
   \<and> fst (fetch_data ''http://a/old'' (start_world (\<lambda>u. Inr (400, Inr ''Bad Request''))))
     = Inl (ClientResponseError 400 ''http://a/old'')"
proof -
  have r: "routes (start_world (\<lambda>u. Inr (301, Inr ''Moved Permanently''))) ''http://a/old''
             = Inr (301, Inr ''Moved Permanently'')"
    by (simp add: start_world_def)
  have q: "routes (start_world (\<lambda>u. Inr (400, Inr ''Bad Request''))) ''http://a/old''
             = Inr (400, Inr ''Bad Request'')"
    by (simp add: start_world_def)
  from fetch_data_raises_iff_400 [OF r] fetch_data_raises_iff_400 [OF q] r q
  show ?thesis by simp
qed

text \<open>
  C10. Executing the module under any name other than \<^verbatim>\<open>__main__\<close>, as an import
  does, leaves the world as it was: no GET, no output, no event at all. Under the name
  \<^verbatim>\<open>__main__\<close> the one GET for the hardcoded URL is issued.
\<close>

theorem module_import_is_silent:
  "(name \<noteq> ''__main__'' \<longrightarrow>
      module_exec name w = (Inr (), w)
      \<and> events_of_call w (snd (module_exec name w)) = []
      \<and> requests_of (events_of_call w (snd (module_exec name w))) = []
      \<and> stdout_of (events_of_call w (snd (module_exec name w))) = [])
   \<and> requests_of (events_of_call w (snd (module_exec ''__main__'' w))) = [''https://example.com'']"
proof -
  have "requests_of (events_of_call w (snd (module_exec ''__main__'' w)))
          = [''https://example.com'']"
  proof (cases rule: remote_cases [of w "''https://example.com''"])
    case (transport t)
    then show ?thesis
      by (simp add: module_exec_main_transport(2) events_of_call_def)
  next
    case (bad st tx)
    then show ?thesis
      by (simp add: module_exec_main_bad_status(2) events_of_call_def)
  next
    case (good st tx)
    then show ?thesis
      by (cases tx) (simp_all add: module_exec_main_good_status(2) events_of_call_def)
  qed
  then show ?thesis
    by (simp add: module_exec_def events_of_call_def)
qed

theorem module_import_is_silent_witness:
  "''async_request'' \<noteq> ''__main__''
   \<and> module_exec ''async_request'' (start_world (mock_server ''8080''))
       = (Inr (), start_world (mock_server ''8080''))
   \<and> requests_of (events_of_call (start_world (mock_server ''8080''))
        (snd (module_exec ''async_request'' (start_world (mock_server ''8080''))))) = []"
proof -
  have n: "''async_request'' \<noteq> ''__main__''" by simp
  from module_import_is_silent [of "''async_request''" "start_world (mock_server ''8080'')"] n
  show ?thesis by blast
qed

end
